theory Spec2Isabelle
  imports Main
begin

section \<open>Attribute normalisation (\<^verbatim>\<open>normalize_attr\<close>)\<close>

text \<open>
  The module \<^verbatim>\<open>tests/pymods/yaml_tools/register_tag.py\<close> starts with
  \<^verbatim>\<open>
  re_word = re.compile(r'[a-zA-Z0-9_]+')

  def normalize_attr(string):
      return '_'.join(re_word.findall(string))
  \<close>
  A Python string is modelled as a \<^typ>\<open>string\<close>. The character class of the
  pattern lists ASCII ranges only and the pattern is compiled without flags, so a
  character outside ASCII is never a member of the class, whatever its encoding.
\<close>

definition is_word_char :: "char \<Rightarrow> bool" where
  "is_word_char c =
     (let n = (of_char c :: nat)
      in (97 \<le> n \<and> n \<le> 122) \<or> (65 \<le> n \<and> n \<le> 90) \<or> (48 \<le> n \<and> n \<le> 57) \<or> n = 95)"

text \<open>
  \<^verbatim>\<open>re_word.findall(string)\<close>: the scan starts at the left; at a position where
  the greedy pattern \<^verbatim>\<open>[a-zA-Z0-9_]+\<close> matches, the longest match is emitted and
  the scan resumes behind it; at any other position the scan moves on by one character.
\<close>

function re_word_findall :: "string \<Rightarrow> string list" where
  "re_word_findall [] = []"
| "re_word_findall (c # s) =
     (if is_word_char c
      then (c # takeWhile is_word_char s) # re_word_findall (dropWhile is_word_char s)
      else re_word_findall s)"
  by pat_completeness auto
termination
  by (relation "measure length") (auto simp: less_Suc_eq_le length_dropWhile_le)

text \<open>\<^verbatim>\<open>sep.join(parts)\<close>.\<close>

fun str_join :: "string \<Rightarrow> string list \<Rightarrow> string" where
  "str_join sep [] = []"
| "str_join sep [x] = x"
| "str_join sep (x # y # ys) = x @ sep @ str_join sep (y # ys)"

definition normalize_attr :: "string \<Rightarrow> string" where
  "normalize_attr string = str_join ''_'' (re_word_findall string)"

text \<open>
  The spec's words for the normaliser: the maximal runs of word characters of a label,
  in order. A run starts at a position that holds a word character and is not
  preceded by one, and it extends over the word characters that follow.
  \<open>run_starts p s\<close> generalises the start positions to a string that follows a
  character which is a word character exactly when \<open>p\<close> holds.
\<close>

definition is_run_start :: "string \<Rightarrow> nat \<Rightarrow> bool" where
  "is_run_start s i =
     (i < length s \<and> is_word_char (s ! i) \<and> (i = 0 \<or> \<not> is_word_char (s ! (i - 1))))"

definition run_at :: "string \<Rightarrow> nat \<Rightarrow> string" where
  "run_at s i = takeWhile is_word_char (drop i s)"

definition maximal_runs :: "string \<Rightarrow> string list" where
  "maximal_runs s = map (run_at s) (filter (is_run_start s) [0..<length s])"

definition run_starts :: "bool \<Rightarrow> string \<Rightarrow> nat list" where
  "run_starts p s =
     filter (\<lambda>i. is_word_char (s ! i) \<and> (if i = 0 then \<not> p else \<not> is_word_char (s ! (i - 1))))
       [0..<length s]"

section \<open>Values and dictionaries\<close>

text \<open>
  The Python values the module handles. \<open>VDict\<close> is a value whose type is exactly
  \<^verbatim>\<open>dict\<close> (the test \<^verbatim>\<open>type(val) is dict\<close> of the source); \<open>VRecord\<close> is an
  instance of \<^verbatim>\<open>BaseDictWrapper\<close>, given by its \<^verbatim>\<open>__dict__\<close>; \<open>VObject\<close> is an
  instance of any other class (its class name and attributes). A dictionary is a list
  of entries in iteration order, one per key, with keys that are strings, the type
  \<^verbatim>\<open>normalize_attr\<close> accepts; so the loop \<^verbatim>\<open>for attr in d: ... d[attr]\<close> visits the
  entries in order.
\<close>

datatype pyval =
    VNone
  | VBool bool
  | VInt int
  | VStr string
  | VList "pyval list"
  | VDict "(string \<times> pyval) list"
  | VRecord "(string \<times> pyval) list"
  | VObject string "(string \<times> pyval) list"

type_synonym pydict = "(string \<times> pyval) list"

fun is_dict :: "pyval \<Rightarrow> bool" where
  "is_dict (VDict d) = True"
| "is_dict v = False"

text \<open>\<^verbatim>\<open>k in d\<close>, \<^verbatim>\<open>d[k]\<close> and \<^verbatim>\<open>d[k] = v\<close> on a dictionary: an assignment to a key
  that is present keeps the key's place, a new key goes to the end.\<close>

definition dict_contains :: "('k \<times> 'v) list \<Rightarrow> 'k \<Rightarrow> bool" where
  "dict_contains d k = (k \<in> set (map fst d))"

definition dict_get :: "('k \<times> 'v) list \<Rightarrow> 'k \<Rightarrow> 'v option" where
  "dict_get d k = map_of d k"

fun dict_set :: "('k \<times> 'v) list \<Rightarrow> 'k \<Rightarrow> 'v \<Rightarrow> ('k \<times> 'v) list" where
  "dict_set [] k v = [(k, v)]"
| "dict_set ((k', v') # d) k v =
     (if k' = k then (k, v) # d else (k', v') # dict_set d k v)"

text \<open>The entries stored under one key; a Python dictionary holds at most one.\<close>

definition entries_at :: "('k \<times> 'v) list \<Rightarrow> 'k \<Rightarrow> 'v list" where
  "entries_at d k = map snd (filter (\<lambda>e. fst e = k) d)"

text \<open>
  Modelled from the spec: \<^verbatim>\<open>NotAvailableTagError\<close> is declared in the package's
  \<^verbatim>\<open>errors\<close> module, which is not among the sources; as the spec's
  \<^verbatim>\<open>NotAvailableError(tag, reason)\<close> it carries the two arguments it is raised
  with. The other exceptions are Python's \<^verbatim>\<open>KeyError\<close>, \<^verbatim>\<open>AttributeError\<close> and
  \<^verbatim>\<open>TypeError\<close>, each with its argument, and the YAML library's
  \<^verbatim>\<open>ConstructorError\<close>.
\<close>

datatype error =
    KeyError string
  | AttributeError string
  | TypeError string
  | ConstructorError string
  | NotAvailableTagError string string

section \<open>The Dynamic Record (\<^verbatim>\<open>BaseDictWrapper\<close>)\<close>

text \<open>
  \<^verbatim>\<open>
  class BaseDictWrapper(object):
      def __init__(self, d={}):
          for attr in d:
              self[attr] = d[attr]

      def __setitem__(self, key, val):
          if type(val) is dict:
              val = BaseDictWrapper(val)
          self.__dict__[normalize_attr(key)] = val
  \<close>
  The state of a record is its \<^verbatim>\<open>__dict__\<close>; a method that writes it returns the new
  one. \<open>init_loop d self\<close> is the loop of \<^verbatim>\<open>__init__\<close> over the entries of \<open>d\<close> that
  are still to be visited, and \<open>BaseDictWrapper d\<close> is the \<^verbatim>\<open>__dict__\<close> of the object
  that \<^verbatim>\<open>BaseDictWrapper(d)\<close> creates.
\<close>

fun setitem :: "pydict \<Rightarrow> string \<Rightarrow> pyval \<Rightarrow> pydict"
  and init_loop :: "pydict \<Rightarrow> pydict \<Rightarrow> pydict" where
  "setitem self key val =
     dict_set self (normalize_attr key)
       (case val of VDict d \<Rightarrow> VRecord (init_loop d []) | _ \<Rightarrow> val)"
| "init_loop [] self = self"
| "init_loop ((attr, v) # d) self = init_loop d (setitem self attr v)"

definition BaseDictWrapper :: "pydict \<Rightarrow> pydict" where
  "BaseDictWrapper d = init_loop d []"

text \<open>
  \<^verbatim>\<open>
      def get(self, key, default=None):
          nkey = normalize_attr(key)
          if nkey in self.__dict__:
              elem = self.__dict__[nkey]
          else:
              elem = default
          if type(elem) is dict:
              return BaseDictWrapper(elem)
          else:
              return elem

      def __getitem__(self, key):
          nkey = normalize_attr(key)
          if nkey not in self.__dict__:
              raise KeyError(key)
          elem = self.__dict__[nkey]
          if type(elem) is dict:
              return BaseDictWrapper(elem)
          else:
              return elem
  \<close>
  \<open>get\<close> and \<open>getitem\<close> are the two functions of the class, applied to a record;
  both return their result together with the record's \<^verbatim>\<open>__dict__\<close> as they leave it.
  Indexed access \<^verbatim>\<open>record[key]\<close> looks \<^verbatim>\<open>__getitem__\<close> up on the class, so it is
  \<open>getitem\<close>; the call \<^verbatim>\<open>record.get(key, default)\<close> is \<open>rec_get\<close> below.
\<close>

definition get :: "pydict \<Rightarrow> string \<Rightarrow> pyval \<Rightarrow> pyval \<times> pydict" where
  "get self key dflt =
     (let nkey = normalize_attr key;
          elem = (case dict_get self nkey of Some v \<Rightarrow> v | None \<Rightarrow> dflt)
      in (case elem of VDict d \<Rightarrow> VRecord (BaseDictWrapper d) | _ \<Rightarrow> elem, self))"

definition getitem :: "pydict \<Rightarrow> string \<Rightarrow> (error + pyval) \<times> pydict" where
  "getitem self key =
     (let nkey = normalize_attr key
      in case dict_get self nkey of
           None \<Rightarrow> (Inl (KeyError key), self)
         | Some elem \<Rightarrow>
             (Inr (case elem of VDict d \<Rightarrow> VRecord (BaseDictWrapper d) | _ \<Rightarrow> elem), self))"

text \<open>
  The call \<^verbatim>\<open>record.get(key, default)\<close> fetches the attribute \<^verbatim>\<open>get\<close> of the record
  and calls it. The keys of the record are kept in the instance's \<^verbatim>\<open>__dict__\<close>, and
  the function \<^verbatim>\<open>get\<close> of the class is no data descriptor: an entry named \<^verbatim>\<open>get\<close>
  is found first, and the call goes to that entry. A scalar, a list, a raw dictionary
  and a record are not callable, and the call raises \<^verbatim>\<open>TypeError\<close>; what calling an
  instance of another class does is that class's \<^verbatim>\<open>__call__\<close>, the parameter
  \<open>call_object\<close>, which is given the record's \<^verbatim>\<open>__dict__\<close> and returns it as the
  call leaves it.
\<close>

fun call_value ::
  "(pyval \<Rightarrow> pyval list \<Rightarrow> pydict \<Rightarrow> (error + pyval) \<times> pydict)
     \<Rightarrow> pyval \<Rightarrow> pyval list \<Rightarrow> pydict \<Rightarrow> (error + pyval) \<times> pydict" where
  "call_value call_object (VObject c a) args self = call_object (VObject c a) args self"
| "call_value call_object v args self = (Inl (TypeError ''object is not callable''), self)"

definition rec_get ::
  "(pyval \<Rightarrow> pyval list \<Rightarrow> pydict \<Rightarrow> (error + pyval) \<times> pydict)
     \<Rightarrow> pydict \<Rightarrow> string \<Rightarrow> pyval \<Rightarrow> (error + pyval) \<times> pydict" where
  "rec_get call_object self key dflt =
     (case dict_get self ''get'' of
        Some entry \<Rightarrow> call_value call_object entry [VStr key, dflt] self
      | None \<Rightarrow> (case get self key dflt of (result, self') \<Rightarrow> (Inr result, self')))"

text \<open>
  The value \<^verbatim>\<open>__setitem__\<close> holds in \<^verbatim>\<open>val\<close> when it reaches its last statement:
  \<^verbatim>\<open>if type(val) is dict: val = BaseDictWrapper(val)\<close>. The methods \<^verbatim>\<open>get\<close> and
  \<^verbatim>\<open>__getitem__\<close> end with the same test on \<^verbatim>\<open>elem\<close>.
\<close>

definition wrapped :: "pyval \<Rightarrow> pyval" where
  "wrapped val = (case val of VDict d \<Rightarrow> VRecord (BaseDictWrapper d) | _ \<Rightarrow> val)"

text \<open>
  \<open>deep_wrapped v\<close>: \<open>v\<close> is no raw dictionary, and when it is a record, so are the
  values of its \<^verbatim>\<open>__dict__\<close>, at every depth. \<open>records_wrapped v\<close>: the records
  that occur in \<open>v\<close> under raw dictionaries are deep-wrapped; it holds of every value
  built from scalars, lists and raw dictionaries alone.
\<close>

fun deep_wrapped :: "pyval \<Rightarrow> bool" where
  "deep_wrapped (VDict d) = False"
| "deep_wrapped (VRecord r) = list_all (\<lambda>e. deep_wrapped (snd e)) r"
| "deep_wrapped v = True"

fun records_wrapped :: "pyval \<Rightarrow> bool" where
  "records_wrapped (VDict d) = list_all (\<lambda>e. records_wrapped (snd e)) d"
| "records_wrapped (VRecord r) = list_all (\<lambda>e. deep_wrapped (snd e)) r"
| "records_wrapped v = True"

text \<open>
  Field-style access \<^verbatim>\<open>record.name\<close>. \<^verbatim>\<open>BaseDictWrapper\<close> defines none of
  \<^verbatim>\<open>__getattr__\<close>, \<^verbatim>\<open>__getattribute__\<close>, \<^verbatim>\<open>__setattr__\<close> and \<^verbatim>\<open>__slots__\<close>, so
  the access is Python's default lookup on an instance of a class derived from
  \<^verbatim>\<open>object\<close>: the data descriptors of the class first (\<^verbatim>\<open>__class__\<close>,
  \<^verbatim>\<open>__dict__\<close>, \<^verbatim>\<open>__weakref__\<close>), then the instance's \<^verbatim>\<open>__dict__\<close>, then the other
  attributes of the class (the methods, \<^verbatim>\<open>_is_dict_like\<close>, what \<^verbatim>\<open>object\<close> gives:
  the parameter \<open>cls\<close>), else \<^verbatim>\<open>AttributeError\<close>.
\<close>

definition getattr :: "(string \<Rightarrow> pyval option) \<Rightarrow> pydict \<Rightarrow> string \<Rightarrow> error + pyval" where
  "getattr cls self name =
     (if name = ''__class__'' then Inr (VObject ''type'' [(''__name__'', VStr ''BaseDictWrapper'')])
      else if name = ''__dict__'' then Inr (VDict self)
      else if name = ''__weakref__'' then Inr VNone
      else case dict_get self name of
             Some v \<Rightarrow> Inr v
           | None \<Rightarrow> (case cls name of Some a \<Rightarrow> Inr a | None \<Rightarrow> Inl (AttributeError name)))"

section \<open>The tag registry and the binding builders\<close>

text \<open>
  A document node of the YAML library: its tag and its content.
  \<^verbatim>\<open>Loader\<close> is imported from the package's \<^verbatim>\<open>__init__\<close>, which is not among the
  sources; it is taken to be a loader class of the library. The three methods of the
  loader that the constructors call are parameters, as are the three methods of the
  dumper that the representers call.
\<close>

datatype node =
    ScalarNode string string
  | SequenceNode string "node list"
  | MappingNode string "(node \<times> node) list"

fun node_tag :: "node \<Rightarrow> string" where
  "node_tag (ScalarNode t v) = t"
| "node_tag (SequenceNode t v) = t"
| "node_tag (MappingNode t v) = t"

record loader =
  construct_mapping :: "node \<Rightarrow> error + pydict"
  construct_sequence :: "node \<Rightarrow> error + pyval list"
  construct_scalar :: "node \<Rightarrow> error + string"

record dumper =
  represent_mapping :: "string \<Rightarrow> pyval \<Rightarrow> error + node"
  represent_sequence :: "string \<Rightarrow> pyval \<Rightarrow> error + node"
  represent_scalar :: "string \<Rightarrow> pyval \<Rightarrow> error + node"

text \<open>
  A class handed to a builder: its \<^verbatim>\<open>__name__\<close>, its string-valued class attributes,
  the outcome of \<^verbatim>\<open>Cls()\<close>, and its methods. A method is a classmethod, called with
  its arguments, or a plain method, called with an instance and its arguments.
\<close>

datatype pymethod =
    ClassMethod "pyval list \<Rightarrow> error + pyval"
  | PlainMethod "pyval \<Rightarrow> pyval list \<Rightarrow> error + pyval"

record pyclass =
  cls_name :: string
  cls_attrs :: "(string \<times> string) list"
  cls_new :: "error + pyval"
  cls_methods :: "(string \<times> pymethod) list"

text \<open>\<^verbatim>\<open>Cls.name\<close> and \<^verbatim>\<open>instance.name\<close> for a method name.\<close>

definition get_method :: "pyclass \<Rightarrow> string \<Rightarrow> error + pymethod" where
  "get_method Cls name =
     (case dict_get (cls_methods Cls) name of
        None \<Rightarrow> Inl (AttributeError name)
      | Some m \<Rightarrow> Inr m)"

text \<open>\<^verbatim>\<open>inspect.ismethod\<close> of an attribute fetched from the class (Python 3): a
  classmethod is bound to the class, a plain method is a function.\<close>

fun ismethod :: "pymethod \<Rightarrow> bool" where
  "ismethod (ClassMethod f) = True"
| "ismethod (PlainMethod g) = False"

text \<open>\<^verbatim>\<open>Cls.name(args)\<close>: a plain function fetched from the class takes its first
  argument as the instance.\<close>

fun call_on_class :: "pymethod \<Rightarrow> pyval list \<Rightarrow> error + pyval" where
  "call_on_class (ClassMethod f) args = f args"
| "call_on_class (PlainMethod g) [] = Inl (TypeError ''missing self'')"
| "call_on_class (PlainMethod g) (a # args) = g a args"

text \<open>\<^verbatim>\<open>instance.name(args)\<close>.\<close>

fun call_on_instance :: "pymethod \<Rightarrow> pyval \<Rightarrow> pyval list \<Rightarrow> error + pyval" where
  "call_on_instance (ClassMethod f) inst args = f args"
| "call_on_instance (PlainMethod g) inst args = g inst args"

text \<open>\<^verbatim>\<open>Cls().name(args)\<close>: the instance is created first, then the attribute is
  fetched, then it is called.\<close>

definition call_on_new :: "pyclass \<Rightarrow> string \<Rightarrow> pyval list \<Rightarrow> error + pyval" where
  "call_on_new Cls name args =
     (case cls_new Cls of
        Inl e \<Rightarrow> Inl e
      | Inr inst \<Rightarrow>
          (case get_method Cls name of
             Inl e \<Rightarrow> Inl e
           | Inr m \<Rightarrow> call_on_instance m inst args))"

text \<open>
  \<^verbatim>\<open>
  def yaml_tag_mangle(Cls):
      return '_' + Cls.__name__.lstrip('_') + '__yaml_tag'
  \<close>
  and the first line of every builder,
  \<^verbatim>\<open>tag = '!' + getattr(Cls, yaml_tag_mangle(Cls), Cls.__name__)\<close>.
\<close>

definition yaml_tag_mangle :: "pyclass \<Rightarrow> string" where
  "yaml_tag_mangle Cls = ''_'' @ dropWhile (\<lambda>c. c = CHR ''_'') (cls_name Cls) @ ''__yaml_tag''"

definition tag_of :: "pyclass \<Rightarrow> string" where
  "tag_of Cls =
     ''!'' @ (case dict_get (cls_attrs Cls) (yaml_tag_mangle Cls) of
               Some t \<Rightarrow> t
             | None \<Rightarrow> cls_name Cls)"

text \<open>
  The registry is the YAML library's: a table of constructors by tag and a table of
  representers by class. \<^verbatim>\<open>yaml.add_constructor(tag, c)\<close> is the
  assignment \<^verbatim>\<open>yaml_constructors[tag] = c\<close> and \<^verbatim>\<open>yaml.add_representer(Cls, r)\<close> the
  assignment \<^verbatim>\<open>yaml_representers[Cls] = r\<close>; neither looks at what the table held.
  \<open>construct_object\<close> is the library's dispatch on a node whose tag is in the table:
  the constructor stored under the tag is called with the loader and the node.
\<close>

record registry =
  yaml_constructors :: "(string \<times> (loader \<Rightarrow> node \<Rightarrow> error + pyval)) list"
  yaml_representers :: "(pyclass \<times> (dumper \<Rightarrow> pyval \<Rightarrow> error + node)) list"

definition add_constructor ::
  "string \<Rightarrow> (loader \<Rightarrow> node \<Rightarrow> error + pyval) \<Rightarrow> registry \<Rightarrow> registry" where
  "add_constructor tag constructor reg =
     reg\<lparr>yaml_constructors := dict_set (yaml_constructors reg) tag constructor\<rparr>"

definition add_representer ::
  "pyclass \<Rightarrow> (dumper \<Rightarrow> pyval \<Rightarrow> error + node) \<Rightarrow> registry \<Rightarrow> registry" where
  "add_representer Cls representer reg =
     reg\<lparr>yaml_representers := dict_set (yaml_representers reg) Cls representer\<rparr>"

definition construct_object :: "registry \<Rightarrow> loader \<Rightarrow> node \<Rightarrow> error + pyval" where
  "construct_object reg ldr nd =
     (case dict_get (yaml_constructors reg) (node_tag nd) of
        None \<Rightarrow> Inl (ConstructorError (node_tag nd))
      | Some constructor \<Rightarrow> constructor ldr nd)"

text \<open>
  \<^verbatim>\<open>
  def yaml_map(Cls):
      tag = '!' + getattr(Cls, yaml_tag_mangle(Cls), Cls.__name__)

      def constructor(loader, node):
          map = dict(loader.construct_mapping(node, deep=True))
          if ismethod(Cls.from_map):
              return Cls.from_map(map)
          else:
              return Cls().from_map(map)

      def representer(dumper, data):
          return dumper.represent_mapping(tag, data.to_map())

      yaml.add_constructor(tag, constructor, Loader=Loader)
      yaml.add_representer(Cls, representer)
      return Cls
  \<close>
  \<^verbatim>\<open>yaml_seq\<close> is the same text with \<^verbatim>\<open>seq\<close> for \<^verbatim>\<open>map\<close>. The builders return
  the registry they leave behind.
\<close>

definition map_constructor :: "pyclass \<Rightarrow> loader \<Rightarrow> node \<Rightarrow> error + pyval" where
  "map_constructor Cls ldr nd =
     (case construct_mapping ldr nd of
        Inl e \<Rightarrow> Inl e
      | Inr m \<Rightarrow>
          (case get_method Cls ''from_map'' of
             Inl e \<Rightarrow> Inl e
           | Inr f \<Rightarrow>
               if ismethod f then call_on_class f [VDict m]
               else call_on_new Cls ''from_map'' [VDict m]))"



definition seq_constructor :: "pyclass \<Rightarrow> loader \<Rightarrow> node \<Rightarrow> error + pyval" where
  "seq_constructor Cls ldr nd =
     (case construct_sequence ldr nd of
        Inl e \<Rightarrow> Inl e
      | Inr s \<Rightarrow>
          (case get_method Cls ''from_seq'' of
             Inl e \<Rightarrow> Inl e
           | Inr f \<Rightarrow>
               if ismethod f then call_on_class f [VList s]
               else call_on_new Cls ''from_seq'' [VList s]))"



text \<open>
  \<^verbatim>\<open>
  def yaml_scalar(Cls):
      tag = '!' + getattr(Cls, yaml_tag_mangle(Cls), Cls.__name__)

      def constructor(loader, node):
          scalar = loader.construct_scalar(node)
          if ismethod(Cls.from_scalar):
              return Cls.from_scalar(scalar)
          else:
              return Cls().from_seq(scalar)

      def representer(dumper, data):
          return dumper.represent_scalar(tag, data.to_scalar())

      yaml.add_constructor(tag, constructor, Loader=Loader)
      yaml.add_representer(Cls, representer)
      return Cls
  \<close>
  The last line of the constructor calls \<^verbatim>\<open>from_seq\<close>, and so does the model.
\<close>

definition scalar_constructor :: "pyclass \<Rightarrow> loader \<Rightarrow> node \<Rightarrow> error + pyval" where
  "scalar_constructor Cls ldr nd =
     (case construct_scalar ldr nd of
        Inl e \<Rightarrow> Inl e
      | Inr scalar \<Rightarrow>
          (case get_method Cls ''from_scalar'' of
             Inl e \<Rightarrow> Inl e
           | Inr f \<Rightarrow>
               if ismethod f then call_on_class f [VStr scalar]
               else call_on_new Cls ''from_seq'' [VStr scalar]))"

definition scalar_representer :: "pyclass \<Rightarrow> dumper \<Rightarrow> pyval \<Rightarrow> error + node" where
  "scalar_representer Cls dmp data =
     (case get_method Cls ''to_scalar'' of
        Inl e \<Rightarrow> Inl e
      | Inr f \<Rightarrow>
          (case call_on_instance f data [] of
             Inl e \<Rightarrow> Inl e
           | Inr s \<Rightarrow> represent_scalar dmp (tag_of Cls) s))"

definition yaml_scalar :: "pyclass \<Rightarrow> registry \<Rightarrow> registry" where
  "yaml_scalar Cls reg =
     add_representer Cls (scalar_representer Cls)
       (add_constructor (tag_of Cls) (scalar_constructor Cls) reg)"

text \<open>
  \<^verbatim>\<open>
  def yaml_not_available_tag(tag, reason):
      def constructor(loader, node):
          raise NotAvailableTagError(tag, reason)
      yaml.add_constructor('!' + tag, constructor, Loader=Loader)
  \<close>
\<close>

definition not_available_constructor ::
  "string \<Rightarrow> string \<Rightarrow> loader \<Rightarrow> node \<Rightarrow> error + pyval" where
  "not_available_constructor tag reason ldr nd = Inl (NotAvailableTagError tag reason)"

definition yaml_not_available_tag :: "string \<Rightarrow> string \<Rightarrow> registry \<Rightarrow> registry" where
  "yaml_not_available_tag tag reason reg =
     add_constructor (''!'' @ tag) (not_available_constructor tag reason) reg"

section \<open>Example inputs\<close>

text \<open>
  Inputs on which the theorems below are evaluated: a registry with no binding, a
  loader for documents whose mappings and sequences hold scalars, and four classes.
  \<^verbatim>\<open>Celsius\<close> follows the docstring of \<^verbatim>\<open>yaml_scalar\<close> with plain methods:
  \<^verbatim>\<open>
  class Celsius(object):
      def from_scalar(self, text):
          self.degrees = text
          return self
      def to_scalar(self):
          return self.degrees
  \<close>
  \<^verbatim>\<open>Kelvin\<close> has \<^verbatim>\<open>from_scalar\<close> as a classmethod. \<^verbatim>\<open>Point\<close> and \<^verbatim>\<open>__Other\<close> have
  \<^verbatim>\<open>from_map\<close> as a classmethod, and \<^verbatim>\<open>__Other\<close> overrides its tag with the class
  attribute \<^verbatim>\<open>_Other__yaml_tag = 'Point'\<close>.
\<close>

definition empty_registry :: registry where
  "empty_registry = \<lparr>yaml_constructors = [], yaml_representers = []\<rparr>"

fun scalar_text :: "node \<Rightarrow> string" where
  "scalar_text (ScalarNode t v) = v"
| "scalar_text nd = []"

definition example_loader :: loader where
  "example_loader =
     \<lparr>construct_mapping =
        (\<lambda>nd. case nd of
           MappingNode t kvs \<Rightarrow> Inr (map (\<lambda>(k, v). (scalar_text k, VStr (scalar_text v))) kvs)
         | _ \<Rightarrow> Inl (ConstructorError ''expected a mapping node'')),
      construct_sequence =
        (\<lambda>nd. case nd of
           SequenceNode t vs \<Rightarrow> Inr (map (\<lambda>v. VStr (scalar_text v)) vs)
         | _ \<Rightarrow> Inl (ConstructorError ''expected a sequence node'')),
      construct_scalar =
        (\<lambda>nd. case nd of
           ScalarNode t v \<Rightarrow> Inr v
         | _ \<Rightarrow> Inl (ConstructorError ''expected a scalar node''))\<rparr>"

definition Celsius :: pyclass where
  "Celsius =
     \<lparr>cls_name = ''Celsius'',
      cls_attrs = [],
      cls_new = Inr (VObject ''Celsius'' []),
      cls_methods =
        [(''from_scalar'', PlainMethod (\<lambda>self args. case args of
             [text] \<Rightarrow> Inr (VObject ''Celsius'' [(''degrees'', text)])
           | _ \<Rightarrow> Inl (TypeError ''from_scalar takes one argument''))),
         (''to_scalar'', PlainMethod (\<lambda>self args. case self of
             VObject c [(a, text)] \<Rightarrow> Inr text
           | _ \<Rightarrow> Inl (AttributeError ''degrees'')))]\<rparr>"

definition Kelvin :: pyclass where
  "Kelvin =
     \<lparr>cls_name = ''Kelvin'',
      cls_attrs = [],
      cls_new = Inr (VObject ''Kelvin'' []),
      cls_methods =
        [(''from_scalar'', ClassMethod (\<lambda>args. case args of
             [text] \<Rightarrow> Inr (VObject ''Kelvin'' [(''degrees'', text)])
           | _ \<Rightarrow> Inl (TypeError ''from_scalar takes one argument'')))]\<rparr>"



section \<open>Properties of the normaliser\<close>

lemma is_word_char_underscore: "is_word_char (CHR ''_'')"
  by (simp add: is_word_char_def)

lemma findall_runs_word:
  "r \<in> set (re_word_findall s) \<Longrightarrow> r \<noteq> [] \<and> (\<forall>c\<in>set r. is_word_char c)"
proof (induction s arbitrary: r rule: re_word_findall.induct)
  case 1
  then show ?case by simp
next
  case (2 c s)
  show ?case
  proof (cases "is_word_char c")
    case True
    with 2 show ?thesis by (auto dest: set_takeWhileD)
  next
    case False
    with 2 show ?thesis by simp
  qed
qed

lemma str_join_all:
  "\<forall>c\<in>set sep. P c \<Longrightarrow> \<forall>r\<in>set rs. \<forall>c\<in>set r. P c \<Longrightarrow> \<forall>c\<in>set (str_join sep rs). P c"
  by (induction sep rs rule: str_join.induct) auto

lemma normalize_attr_word: "\<forall>c\<in>set (normalize_attr s). is_word_char c"
  unfolding normalize_attr_def
  by (rule str_join_all) (simp_all add: is_word_char_underscore findall_runs_word)

lemma findall_word_string:
  assumes w: "\<forall>c\<in>set t. is_word_char c"
  shows "re_word_findall t = (if t = [] then [] else [t])"
proof (cases t)
  case Nil
  then show ?thesis by simp
next
  case (Cons a list)
  with w have t: "takeWhile is_word_char list = list" and d: "dropWhile is_word_char list = []"
    by simp_all
  from Cons w have "is_word_char a" by simp
  then show ?thesis unfolding Cons by (simp add: t d)
qed

lemma normalize_attr_fixed: "\<forall>c\<in>set t. is_word_char c \<Longrightarrow> normalize_attr t = t"
  by (simp add: normalize_attr_def findall_word_string)

lemma findall_no_word: "\<forall>c\<in>set s. \<not> is_word_char c \<Longrightarrow> re_word_findall s = []"
  by (induction s) simp_all

lemma filter_takeWhile_dropWhile: "filter P s = takeWhile P s @ filter P (dropWhile P s)"
  by (induction s) simp_all

lemma concat_findall: "concat (re_word_findall s) = filter is_word_char s"
proof (induction s rule: re_word_findall.induct)
  case 1
  show ?case by simp
next
  case (2 c s)
  show ?case
  proof (cases "is_word_char c")
    case True
    with 2 have "concat (re_word_findall (c # s))
        = c # takeWhile is_word_char s @ filter is_word_char (dropWhile is_word_char s)"
      by simp
    also have "\<dots> = c # filter is_word_char s"
      by (simp add: filter_takeWhile_dropWhile [symmetric])
    finally show ?thesis using True by simp
  next
    case False
    with 2 show ?thesis by simp
  qed
qed

subsection \<open>The scan of \<^verbatim>\<open>findall\<close> yields the maximal runs\<close>

lemma run_starts_Cons:
  "run_starts p (c # s) =
     (if is_word_char c \<and> \<not> p then [0] else []) @ map Suc (run_starts (is_word_char c) s)"
proof -
  have "[0..<Suc (length s)] = 0 # [Suc 0..<Suc (length s)]"
    by (rule upt_conv_Cons) simp
  then have u: "[0..<length (c # s)] = 0 # map Suc [0..<length s]"
    by (simp only: map_Suc_upt length_Cons)
  have f: "filter (\<lambda>i. is_word_char ((c # s) ! i) \<and>
              (if i = 0 then \<not> p else \<not> is_word_char ((c # s) ! (i - 1))))
            (map Suc [0..<length s])
        = map Suc (run_starts (is_word_char c) s)"
    unfolding run_starts_def filter_map
    by (rule arg_cong [where f = "map Suc"], rule filter_cong) (auto simp: nth_Cons')
  show ?thesis
    unfolding run_starts_def [of p] u by (simp add: f del: upt_Suc)
qed

lemma run_at_Cons_Suc: "run_at (c # s) (Suc i) = run_at s i"
  by (simp add: run_at_def)

lemma run_at_0: "run_at s 0 = takeWhile is_word_char s"
  by (simp add: run_at_def)

lemma runs_Cons:
  "map (run_at (c # s)) (run_starts p (c # s)) =
     (if is_word_char c \<and> \<not> p then [c # takeWhile is_word_char s] else [])
       @ map (run_at s) (run_starts (is_word_char c) s)"
  by (simp add: run_starts_Cons run_at_0 run_at_Cons_Suc comp_def)

lemma runs_findall:
  "map (run_at s) (run_starts False s) = re_word_findall s \<and>
   map (run_at s) (run_starts True s) = re_word_findall (dropWhile is_word_char s)"
proof (induction s)
  case Nil
  show ?case by (simp add: run_starts_def)
next
  case (Cons c s)
  show ?case
  proof (cases "is_word_char c")
    case True
    with Cons show ?thesis by (simp add: runs_Cons)
  next
    case False
    with Cons show ?thesis by (simp add: runs_Cons)
  qed
qed

lemma maximal_runs_starts: "maximal_runs s = map (run_at s) (run_starts False s)"
  unfolding maximal_runs_def run_starts_def
  by (rule arg_cong [where f = "map (run_at s)"], rule filter_cong)
     (auto simp: is_run_start_def)

lemma maximal_runs_findall: "maximal_runs s = re_word_findall s"
  by (simp add: maximal_runs_starts runs_findall)

text \<open>
  Claim C4. For every label, \<^verbatim>\<open>normalize_attr(label)\<close> is the maximal runs of ASCII
  letters, digits and underscores of the label, in order, joined by single
  underscores; the runs together are the word characters of the label, every other
  character being dropped; and \<^verbatim>\<open>"attr w/ spaces"\<close> and \<^verbatim>\<open>"attr-w-spaces"\<close> both
  normalise to \<^verbatim>\<open>"attr_w_spaces"\<close>.
\<close>

theorem normalize_attr_joins_maximal_runs:
  "normalize_attr label = str_join ''_'' (maximal_runs label)
   \<and> concat (maximal_runs label) = filter is_word_char label
   \<and> normalize_attr ''attr w/ spaces'' = ''attr_w_spaces''
   \<and> normalize_attr ''attr-w-spaces'' = ''attr_w_spaces''"
proof -
  have "normalize_attr ''attr w/ spaces'' = ''attr_w_spaces''"
    by (simp add: normalize_attr_def is_word_char_def)
  moreover have "normalize_attr ''attr-w-spaces'' = ''attr_w_spaces''"
    by (simp add: normalize_attr_def is_word_char_def)
  ultimately show ?thesis
    by (simp add: maximal_runs_findall concat_findall normalize_attr_def)
qed

text \<open>
  Claim C8. Normalisation is idempotent: for every string \<open>s\<close>,
  \<^verbatim>\<open>normalize_attr(normalize_attr(s)) == normalize_attr(s)\<close>.
\<close>

theorem normalize_attr_idempotent: "normalize_attr (normalize_attr s) = normalize_attr s"
  by (rule normalize_attr_fixed) (rule normalize_attr_word)

section \<open>Properties of the Dynamic Record\<close>

subsection \<open>Dictionaries\<close>

lemma dict_get_set: "dict_get (dict_set d k v) k' = (if k' = k then Some v else dict_get d k')"
  by (induction d) (auto simp: dict_get_def)

lemma keys_dict_set: "fst ` set (dict_set d k v) = insert k (fst ` set d)"
  by (induction d k v rule: dict_set.induct) (simp_all add: insert_commute)

lemma distinct_dict_set: "distinct (map fst d) \<Longrightarrow> distinct (map fst (dict_set d k v))"
  by (induction d) (auto simp: keys_dict_set)

lemma entries_at_dict_set: "distinct (map fst d) \<Longrightarrow> entries_at (dict_set d k v) k = [v]"
  by (induction d) (auto simp: entries_at_def filter_empty_conv)

lemma dict_set_twice: "dict_set (dict_set d k v) k w = dict_set d k w"
  by (induction d) auto

lemma dict_contains_get: "dict_contains d k = (dict_get d k \<noteq> None)"
  by (simp add: dict_contains_def dict_get_def map_of_eq_None_iff)

subsection \<open>The three methods in terms of \<open>wrapped\<close>\<close>

lemma setitem_wrapped: "setitem self key val = dict_set self (normalize_attr key) (wrapped val)"
  by (cases val) (simp_all add: wrapped_def BaseDictWrapper_def)

lemma wrapped_not_dict: "\<not> is_dict val \<Longrightarrow> wrapped val = val"
  by (cases val) (simp_all add: wrapped_def)

lemma wrapped_is_not_dict: "\<not> is_dict (wrapped val)"
  by (cases val) (simp_all add: wrapped_def)

lemma wrapped_idem: "wrapped (wrapped val) = wrapped val"
  by (rule wrapped_not_dict) (rule wrapped_is_not_dict)

lemma get_eq:
  "get self key dflt =
     (wrapped (case dict_get self (normalize_attr key) of Some v \<Rightarrow> v | None \<Rightarrow> dflt), self)"
  by (simp add: get_def Let_def wrapped_def)

lemma getitem_eq:
  "getitem self key =
     (case dict_get self (normalize_attr key) of
        None \<Rightarrow> Inl (KeyError key)
      | Some v \<Rightarrow> Inr (wrapped v), self)"
  by (simp add: getitem_def Let_def wrapped_def split: option.splits)

lemma init_loop_fold: "init_loop d self = fold (\<lambda>(k, v) self. setitem self k v) d self"
  by (induction d arbitrary: self) (auto simp del: setitem.simps)

lemma deep_dict_set:
  "list_all (\<lambda>e. deep_wrapped (snd e)) d \<Longrightarrow> deep_wrapped v \<Longrightarrow>
   list_all (\<lambda>e. deep_wrapped (snd e)) (dict_set d k v)"
  by (induction d) auto

lemma deep_init_loop:
  "list_all (\<lambda>e. records_wrapped (snd e)) d \<Longrightarrow> list_all (\<lambda>e. deep_wrapped (snd e)) self \<Longrightarrow>
   list_all (\<lambda>e. deep_wrapped (snd e)) (init_loop d self)"
proof (induction "size (VDict d)" arbitrary: d self rule: less_induct)
  case less
  show ?case
  proof (cases d)
    case Nil
    with less.prems show ?thesis by simp
  next
    case (Cons e d')
    obtain k v where e: "e = (k, v)" by (cases e)
    have v: "deep_wrapped (wrapped v)"
    proof (cases v)
      case (VDict dv)
      have "size (VDict dv) < size (VDict d)"
        using Cons e VDict by simp
      moreover have "list_all (\<lambda>e. records_wrapped (snd e)) dv"
        using less.prems(1) Cons e VDict by simp
      ultimately have "list_all (\<lambda>e. deep_wrapped (snd e)) (init_loop dv [])"
        by (rule less.hyps) simp
      with VDict show ?thesis by (simp add: wrapped_def BaseDictWrapper_def)
    next
      case (VRecord r)
      with less.prems(1) Cons e show ?thesis by (simp add: wrapped_def)
    qed (simp_all add: wrapped_def)
    have "size (VDict d') < size (VDict d)"
      using Cons by simp
    moreover have "list_all (\<lambda>e. records_wrapped (snd e)) d'"
      using less.prems(1) Cons by simp
    moreover have "list_all (\<lambda>e. deep_wrapped (snd e)) (setitem self k v)"
      unfolding setitem_wrapped using less.prems(2) v by (rule deep_dict_set)
    ultimately have "list_all (\<lambda>e. deep_wrapped (snd e)) (init_loop d' (setitem self k v))"
      by (rule less.hyps)
    with Cons e show ?thesis by (simp del: setitem.simps)
  qed
qed

lemma deep_wrapped_wrapped: "records_wrapped val \<Longrightarrow> deep_wrapped (wrapped val)"
  by (cases val) (simp_all add: wrapped_def BaseDictWrapper_def deep_init_loop)

subsection \<open>The call \<^verbatim>\<open>record.get(key, default)\<close>\<close>

lemma rec_get_unshadowed:
  "\<not> dict_contains self ''get'' \<Longrightarrow>
   rec_get call_object self key dflt =
     (Inr (wrapped (case dict_get self (normalize_attr key) of Some v \<Rightarrow> v | None \<Rightarrow> dflt)),
      self)"
  by (simp add: rec_get_def dict_contains_get get_eq)

lemma rec_get_shadowed:
  "dict_get self ''get'' = Some entry \<Longrightarrow>
   rec_get call_object self key dflt = call_value call_object entry [VStr key, dflt] self"
  by (simp add: rec_get_def)

lemma dict_contains_set:
  "dict_contains (dict_set d k v) k' = (k' = k \<or> dict_contains d k')"
  by (simp add: dict_contains_get dict_get_set)

subsection \<open>Writing under colliding keys\<close>

text \<open>
  Claim C1, as amended. For every record (a \<^verbatim>\<open>__dict__\<close> with one entry per key) and
  every two keys \<open>k1\<close>, \<open>k2\<close> with the same normal form, \<^verbatim>\<open>set(k1, v1)\<close> followed by
  \<^verbatim>\<open>set(k2, v2)\<close> leaves exactly one entry under the shared normalised key, holding
  \<open>v2\<close> as \<^verbatim>\<open>set\<close> stores it (\<open>v2\<close> itself, or the Dynamic Record built from it when
  \<open>v2\<close> is a raw mapping); indexed access under \<open>k2\<close> returns it, nothing of the
  earlier write is left, and no error is raised. When no key of the record is
  \<^verbatim>\<open>get\<close> (neither a key it held nor the shared normalised key), the call
  \<^verbatim>\<open>get(k2)\<close> returns that value too.
\<close>

theorem set_collision_later_write_wins:
  assumes "normalize_attr k1 = normalize_attr k2" and "distinct (map fst self)"
  shows "entries_at (setitem (setitem self k1 v1) k2 v2) (normalize_attr k1) = [wrapped v2]
       \<and> getitem (setitem (setitem self k1 v1) k2 v2) k2
           = (Inr (wrapped v2), setitem (setitem self k1 v1) k2 v2)
       \<and> setitem (setitem self k1 v1) k2 v2 = setitem self k2 v2
       \<and> (\<not> is_dict v2 \<longrightarrow> wrapped v2 = v2)
       \<and> (\<forall>d. v2 = VDict d \<longrightarrow> wrapped v2 = VRecord (BaseDictWrapper d))
       \<and> (\<not> dict_contains self ''get'' \<and> normalize_attr k2 \<noteq> ''get'' \<longrightarrow>
            rec_get call_object (setitem (setitem self k1 v1) k2 v2) k2 dflt
              = (Inr (wrapped v2), setitem (setitem self k1 v1) k2 v2))"
proof -
  let ?S = "setitem (setitem self k1 v1) k2 v2"
  have s: "?S = dict_set self (normalize_attr k2) (wrapped v2)"
    using assms(1) by (simp add: setitem_wrapped dict_set_twice del: setitem.simps)
  have e: "entries_at ?S (normalize_attr k1) = [wrapped v2]"
    unfolding s using assms by (simp add: entries_at_dict_set)
  have g: "getitem ?S k2 = (Inr (wrapped v2), ?S)"
    unfolding s by (simp add: getitem_eq dict_get_set wrapped_idem)
  have t: "?S = setitem self k2 v2"
    unfolding s by (simp add: setitem_wrapped del: setitem.simps)
  have w: "(\<not> is_dict v2 \<longrightarrow> wrapped v2 = v2)
      \<and> (\<forall>d. v2 = VDict d \<longrightarrow> wrapped v2 = VRecord (BaseDictWrapper d))"
    by (simp add: wrapped_not_dict) (simp add: wrapped_def)
  have r: "\<not> dict_contains self ''get'' \<and> normalize_attr k2 \<noteq> ''get'' \<longrightarrow>
      rec_get call_object ?S k2 dflt = (Inr (wrapped v2), ?S)"
  proof
    assume a: "\<not> dict_contains self ''get'' \<and> normalize_attr k2 \<noteq> ''get''"
    then have "\<not> dict_contains ?S ''get''"
      unfolding s by (auto simp: dict_contains_set)
    then have "rec_get call_object ?S k2 dflt
        = (Inr (wrapped (case dict_get ?S (normalize_attr k2) of Some v \<Rightarrow> v | None \<Rightarrow> dflt)), ?S)"
      by (rule rec_get_unshadowed)
    also have "dict_get ?S (normalize_attr k2) = Some (wrapped v2)"
      unfolding s by (simp add: dict_get_set)
    finally show "rec_get call_object ?S k2 dflt = (Inr (wrapped v2), ?S)"
      by (simp add: wrapped_idem)
  qed
  from e g t w r show ?thesis
    by blast
qed

theorem set_collision_later_write_wins_witness:
  "normalize_attr ''attr .w. --spaces'' = normalize_attr ''attr w/ spaces''
   \<and> distinct (map fst [(''other'', VNone)])
   \<and> \<not> dict_contains [(''other'', VNone)] ''get''
   \<and> normalize_attr ''attr w/ spaces'' \<noteq> ''get''
   \<and> rec_get (\<lambda>f args self. (Inr VNone, self))
         (setitem (setitem [(''other'', VNone)] ''attr .w. --spaces'' (VInt 1))
            ''attr w/ spaces'' (VInt 2)) ''attr w/ spaces'' VNone
       = (Inr (VInt 2), [(''other'', VNone), (''attr_w_spaces'', VInt 2)])
   \<and> entries_at (setitem (setitem [(''other'', VNone)] ''attr .w. --spaces'' (VInt 1))
            ''attr w/ spaces'' (VInt 2)) ''attr_w_spaces'' = [VInt 2]"
proof -
  have n: "normalize_attr ''attr .w. --spaces'' = normalize_attr ''attr w/ spaces''"
    by (simp add: normalize_attr_def is_word_char_def)
  have d: "distinct (map fst [(''other'', VNone)])"
    by simp
  have e: "normalize_attr ''attr w/ spaces'' = ''attr_w_spaces''"
    by (simp add: normalize_attr_def is_word_char_def)
  have c: "\<not> dict_contains [(''other'', VNone)] ''get''"
    by (simp add: dict_contains_def)
  have s: "setitem (setitem [(''other'', VNone)] ''attr .w. --spaces'' (VInt 1))
             ''attr w/ spaces'' (VInt 2) = [(''other'', VNone), (''attr_w_spaces'', VInt 2)]"
    by (simp add: normalize_attr_def is_word_char_def)
  show ?thesis
    using set_collision_later_write_wins [OF n d, of "VInt 1" "VInt 2"
        "\<lambda>f args self. (Inr VNone, self)" VNone] n d c
    by (simp add: e s wrapped_def)
qed

text \<open>
  The claim as the spec words it (for every record, \<^verbatim>\<open>get("attr w/ spaces")\<close> is 2
  after the two writes) fails on a record that holds a key \<^verbatim>\<open>get\<close>, and for colliding
  keys that normalise to \<^verbatim>\<open>get\<close>: the entry takes the place of the method, and the
  call raises \<^verbatim>\<open>TypeError\<close>.
\<close>

theorem set_collision_get_shadowed_counterexample:
  "rec_get (\<lambda>f args self. (Inr VNone, self))
       (setitem (setitem [(''get'', VInt 5)] ''attr .w. --spaces'' (VInt 1))
          ''attr w/ spaces'' (VInt 2)) ''attr w/ spaces'' VNone
     = (Inl (TypeError ''object is not callable''),
        [(''get'', VInt 5), (''attr_w_spaces'', VInt 2)])
   \<and> rec_get (\<lambda>f args self. (Inr VNone, self))
       (setitem (setitem [] ''get'' (VInt 1)) '' get'' (VInt 2)) '' get'' VNone
     = (Inl (TypeError ''object is not callable''), [(''get'', VInt 2)])"
  by (simp add: rec_get_def normalize_attr_def is_word_char_def dict_get_def)

subsection \<open>Reading a missing key\<close>

text \<open>
  Claim C6, as amended. For every record and every key whose normal form is not a key
  of the backing store, indexed access fails with \<^verbatim>\<open>KeyError\<close> carrying the key as
  given and leaves the record as it was; and when no key of the record is \<^verbatim>\<open>get\<close>,
  the call \<^verbatim>\<open>get(key, default)\<close> returns without error the default when it is not a
  raw mapping and the Dynamic Record built from it when it is, and leaves the record
  as it was.
\<close>

theorem missing_key_getitem_raises_get_defaults:
  assumes "\<not> dict_contains self (normalize_attr key)"
  shows "getitem self key = (Inl (KeyError key), self)
       \<and> (\<not> dict_contains self ''get'' \<longrightarrow>
            rec_get call_object self key dflt = (Inr (wrapped dflt), self))
       \<and> (\<not> is_dict dflt \<longrightarrow> wrapped dflt = dflt)
       \<and> (\<forall>d. dflt = VDict d \<longrightarrow> wrapped dflt = VRecord (BaseDictWrapper d))"
  using assms
  by (simp add: dict_contains_get [of self "normalize_attr key"] getitem_eq rec_get_unshadowed
        wrapped_not_dict)
     (simp add: wrapped_def)

theorem missing_key_getitem_raises_get_defaults_witness:
  "\<not> dict_contains [(''a'', VInt 1)] (normalize_attr ''no such key'')
   \<and> \<not> dict_contains [(''a'', VInt 1)] ''get''
   \<and> getitem [(''a'', VInt 1)] ''no such key'' = (Inl (KeyError ''no such key''), [(''a'', VInt 1)])
   \<and> rec_get (\<lambda>f args self. (Inr VNone, self)) [(''a'', VInt 1)] ''no such key'' (VInt 7)
       = (Inr (VInt 7), [(''a'', VInt 1)])"
proof -
  have a: "\<not> dict_contains [(''a'', VInt 1)] (normalize_attr ''no such key'')"
    by (simp add: dict_contains_def normalize_attr_def is_word_char_def)
  have c: "\<not> dict_contains [(''a'', VInt 1)] ''get''"
    by (simp add: dict_contains_def)
  show ?thesis
    using missing_key_getitem_raises_get_defaults [OF a,
        of "\<lambda>f args self. (Inr VNone, self)" "VInt 7"] a c
    by (simp add: wrapped_def)
qed

text \<open>
  The claim as the spec words it (\<^verbatim>\<open>get\<close> returns the supplied default without
  error) fails for a default that is a raw mapping, where a record with normalised
  keys comes back, and on a record that holds a key \<^verbatim>\<open>get\<close>, where the call raises
  \<^verbatim>\<open>TypeError\<close>.
\<close>

theorem get_default_raw_mapping_counterexample:
  "rec_get (\<lambda>f args self. (Inr VNone, self)) [(''a'', VInt 1)] ''b'' (VDict [(''x y'', VInt 2)])
     = (Inr (VRecord [(''x_y'', VInt 2)]), [(''a'', VInt 1)])
   \<and> VRecord [(''x_y'', VInt 2)] \<noteq> VDict [(''x y'', VInt 2)]
   \<and> rec_get (\<lambda>f args self. (Inr VNone, self)) [(''get'', VInt 5)] ''zzz'' (VInt 7)
     = (Inl (TypeError ''object is not callable''), [(''get'', VInt 5)])"
  by (simp add: rec_get_def get_def Let_def normalize_attr_def is_word_char_def dict_get_def
        BaseDictWrapper_def)

subsection \<open>Wrapping at assignment\<close>

text \<open>
  Claim C7. \<^verbatim>\<open>set(key, value)\<close> stores under the normalised key a value that differs
  from \<open>value\<close> exactly when \<open>value\<close> is a raw mapping, and then it is the new
  Dynamic Record built from it; a value that is a Dynamic Record already is stored as
  it is. The record built from a raw mapping is filled by \<^verbatim>\<open>set\<close> on each of its
  entries, so nested raw mappings are wrapped in turn, to every depth: the stored
  value holds no raw mapping as a record value. The wrapping is done by the
  assignment: reading the key back returns the stored value.
\<close>

theorem setitem_wraps_raw_mappings:
  "setitem self key val = dict_set self (normalize_attr key) (wrapped val)
   \<and> (wrapped val \<noteq> val) = is_dict val
   \<and> wrapped (VDict d) = VRecord (BaseDictWrapper d)
   \<and> wrapped (VRecord r) = VRecord r
   \<and> BaseDictWrapper d = fold (\<lambda>(k, v) self. setitem self k v) d []
   \<and> (records_wrapped val \<longrightarrow> deep_wrapped (wrapped val))
   \<and> getitem (setitem self key val) key = (Inr (wrapped val), setitem self key val)"
proof -
  have "(wrapped val \<noteq> val) = is_dict val"
    by (cases val) (simp_all add: wrapped_def)
  moreover have "getitem (setitem self key val) key = (Inr (wrapped val), setitem self key val)"
    by (simp add: getitem_eq setitem_wrapped dict_get_set wrapped_idem del: setitem.simps)
  moreover have "BaseDictWrapper d = fold (\<lambda>(k, v) self. setitem self k v) d []"
    unfolding BaseDictWrapper_def by (rule init_loop_fold)
  ultimately show ?thesis
    by (simp add: setitem_wrapped deep_wrapped_wrapped del: setitem.simps)
       (simp add: wrapped_def)
qed

theorem setitem_wraps_raw_mappings_witness:
  "records_wrapped (VDict [(''a b'', VDict [(''c-d'', VInt 1)]), (''e'', VRecord [])])
   \<and> setitem [] ''outer key'' (VDict [(''a b'', VDict [(''c-d'', VInt 1)]), (''e'', VRecord [])])
       = [(''outer_key'', VRecord [(''a_b'', VRecord [(''c_d'', VInt 1)]), (''e'', VRecord [])])]
   \<and> deep_wrapped (wrapped (VDict [(''a b'', VDict [(''c-d'', VInt 1)]), (''e'', VRecord [])]))"
proof -
  have r: "records_wrapped (VDict [(''a b'', VDict [(''c-d'', VInt 1)]), (''e'', VRecord [])])"
    by simp
  have s: "setitem [] ''outer key'' (VDict [(''a b'', VDict [(''c-d'', VInt 1)]), (''e'', VRecord [])])
       = [(''outer_key'', VRecord [(''a_b'', VRecord [(''c_d'', VInt 1)]), (''e'', VRecord [])])]"
    by (simp add: normalize_attr_def is_word_char_def)
  have "deep_wrapped (wrapped (VDict [(''a b'', VDict [(''c-d'', VInt 1)]), (''e'', VRecord [])]))"
    using setitem_wraps_raw_mappings [of "[]" "''outer key''"
        "VDict [(''a b'', VDict [(''c-d'', VInt 1)]), (''e'', VRecord [])]"] r
    by blast
  with r s show ?thesis
    by blast
qed

subsection \<open>Labels without word characters\<close>

text \<open>
  Claim C10. A label that holds no ASCII letter, digit or underscore normalises to the
  empty string; so \<^verbatim>\<open>set\<close> with two such labels stores the first value under the
  empty key and then the second value over it: one entry is left under the empty
  key, holding what \<^verbatim>\<open>set\<close> stores for the later value (the value itself unless it
  is a raw mapping).
\<close>

theorem no_word_labels_share_empty_key:
  assumes "\<forall>c\<in>set l1. \<not> is_word_char c" and "\<forall>c\<in>set l2. \<not> is_word_char c"
  shows "normalize_attr l1 = [] \<and> normalize_attr l2 = []
       \<and> dict_get (setitem self l1 v1) [] = Some (wrapped v1)
       \<and> dict_get (setitem (setitem self l1 v1) l2 v2) [] = Some (wrapped v2)
       \<and> setitem (setitem self l1 v1) l2 v2 = dict_set self [] (wrapped v2)
       \<and> (distinct (map fst self) \<longrightarrow>
            entries_at (setitem (setitem self l1 v1) l2 v2) [] = [wrapped v2])
       \<and> (\<not> is_dict v2 \<longrightarrow> wrapped v2 = v2)"
proof -
  from assms have n: "normalize_attr l1 = []" "normalize_attr l2 = []"
    by (simp_all add: normalize_attr_def findall_no_word)
  then show ?thesis
    by (simp add: setitem_wrapped dict_get_set dict_set_twice entries_at_dict_set
          wrapped_not_dict del: setitem.simps)
qed

theorem no_word_labels_share_empty_key_witness:
  "filter is_word_char ''---'' = [] \<and> filter is_word_char ''!!!'' = []
   \<and> normalize_attr ''---'' = [] \<and> normalize_attr ''!!!'' = []
   \<and> setitem (setitem [(''a'', VInt 0)] ''---'' (VInt 1)) ''!!!'' (VInt 2)
       = [(''a'', VInt 0), ([], VInt 2)]"
proof -
  have a: "\<forall>c\<in>set ''---''. \<not> is_word_char c" and b: "\<forall>c\<in>set ''!!!''. \<not> is_word_char c"
    by (simp_all add: is_word_char_def)
  show ?thesis
    using no_word_labels_share_empty_key [OF a b, of "[(''a'', VInt 0)]" "VInt 1" "VInt 2"] a b
    by (simp add: wrapped_def filter_empty_conv del: setitem.simps)
qed

subsection \<open>Field access and indexed access\<close>

text \<open>
  Claim C5, as amended. For every record and every already-normalised key \<open>f\<close> that
  is not the name of a data descriptor of the class (\<^verbatim>\<open>__class__\<close>, \<^verbatim>\<open>__dict__\<close>,
  \<^verbatim>\<open>__weakref__\<close>): when the backing store holds under \<open>f\<close> a value that is not a raw
  mapping, \<^verbatim>\<open>record.f\<close> and \<^verbatim>\<open>record[f]\<close> return that value; after
  \<^verbatim>\<open>set(f, val)\<close>, whatever \<open>val\<close> is, both return the value that \<^verbatim>\<open>set\<close> stored;
  and when the backing store holds under \<open>f\<close> a raw mapping, \<^verbatim>\<open>record.f\<close> returns the
  raw mapping and \<^verbatim>\<open>record[f]\<close> a new Dynamic Record built from it.
\<close>

theorem field_access_agrees_with_indexed_access:
  assumes "normalize_attr f = f"
    and "f \<notin> {''__class__'', ''__dict__'', ''__weakref__''}"
  shows "(dict_get self f = Some v \<and> \<not> is_dict v \<longrightarrow>
            getattr cls self f = Inr v \<and> getitem self f = (Inr v, self))
       \<and> getattr cls (setitem self f val) f = Inr (wrapped val)
       \<and> getitem (setitem self f val) f = (Inr (wrapped val), setitem self f val)
       \<and> (dict_get self f = Some (VDict d) \<longrightarrow>
            getattr cls self f = Inr (VDict d)
            \<and> getitem self f = (Inr (VRecord (BaseDictWrapper d)), self))"
  using assms
  by (simp add: getattr_def getitem_eq setitem_wrapped dict_get_set wrapped_idem
        wrapped_not_dict del: setitem.simps)
     (simp add: wrapped_def)

theorem field_access_agrees_with_indexed_access_witness:
  "normalize_attr ''attr_w_spaces'' = ''attr_w_spaces''
   \<and> ''attr_w_spaces'' \<notin> {''__class__'', ''__dict__'', ''__weakref__''}
   \<and> dict_get [(''attr_w_spaces'', VInt 82)] ''attr_w_spaces'' = Some (VInt 82)
   \<and> \<not> is_dict (VInt 82)
   \<and> getattr (\<lambda>n. None) [(''attr_w_spaces'', VInt 82)] ''attr_w_spaces'' = Inr (VInt 82)
   \<and> getitem [(''attr_w_spaces'', VInt 82)] ''attr_w_spaces''
       = (Inr (VInt 82), [(''attr_w_spaces'', VInt 82)])"
proof -
  have n: "normalize_attr ''attr_w_spaces'' = ''attr_w_spaces''"
    by (simp add: normalize_attr_def is_word_char_def)
  have r: "''attr_w_spaces'' \<notin> {''__class__'', ''__dict__'', ''__weakref__''}"
    by simp
  have g: "dict_get [(''attr_w_spaces'', VInt 82)] ''attr_w_spaces'' = Some (VInt 82)"
    by (simp add: dict_get_def)
  show ?thesis
    using field_access_agrees_with_indexed_access [OF n r,
        of "[(''attr_w_spaces'', VInt 82)]" "VInt 82" "\<lambda>n. None" VNone "[]"] n g
    by simp
qed

text \<open>
  The claim as the spec words it (for every record) fails on a record whose store
  holds a raw mapping, as after the field assignment \<^verbatim>\<open>record.x = {'a b': 1}\<close>: field
  access returns the raw mapping, indexed access a new record built from it.
\<close>

theorem field_access_raw_mapping_counterexample:
  "getattr (\<lambda>n. None) [(''x'', VDict [(''a b'', VInt 1)])] ''x'' = Inr (VDict [(''a b'', VInt 1)])
   \<and> fst (getitem [(''x'', VDict [(''a b'', VInt 1)])] ''x'') = Inr (VRecord [(''a_b'', VInt 1)])
   \<and> getattr (\<lambda>n. None) [(''x'', VDict [(''a b'', VInt 1)])] ''x''
       \<noteq> fst (getitem [(''x'', VDict [(''a b'', VInt 1)])] ''x'')"
  by (simp add: getattr_def getitem_def Let_def dict_get_def normalize_attr_def
        is_word_char_def BaseDictWrapper_def)

section \<open>Properties of the registry and the builders\<close>

lemma constructors_add_representer [simp]:
  "yaml_constructors (add_representer Cls r reg) = yaml_constructors reg"
  by (simp add: add_representer_def)

lemma constructors_add_constructor [simp]:
  "yaml_constructors (add_constructor tag c reg) = dict_set (yaml_constructors reg) tag c"
  by (simp add: add_constructor_def)

lemma construct_object_added:
  "node_tag nd = tag \<Longrightarrow> construct_object (add_constructor tag c reg) ldr nd = c ldr nd"
  by (simp add: construct_object_def dict_get_set)

lemma construct_object_add_representer [simp]:
  "construct_object (add_representer Cls r reg) ldr nd = construct_object reg ldr nd"
  by (simp add: construct_object_def)

lemma scalar_constructor_classmethod:
  "construct_scalar ldr nd = Inr s \<Longrightarrow> get_method Cls ''from_scalar'' = Inr (ClassMethod f) \<Longrightarrow>
   scalar_constructor Cls ldr nd = f [VStr s]"
  by (simp add: scalar_constructor_def)

lemma scalar_constructor_plain:
  "construct_scalar ldr nd = Inr s \<Longrightarrow> get_method Cls ''from_scalar'' = Inr (PlainMethod g) \<Longrightarrow>
   scalar_constructor Cls ldr nd = call_on_new Cls ''from_seq'' [VStr s]"
  by (simp add: scalar_constructor_def)

lemma map_constructor_plain:
  "construct_mapping ldr nd = Inr m \<Longrightarrow> get_method Cls ''from_map'' = Inr (PlainMethod g) \<Longrightarrow>
   map_constructor Cls ldr nd = call_on_new Cls ''from_map'' [VDict m]"
  by (simp add: map_constructor_def)

lemma seq_constructor_plain:
  "construct_sequence ldr nd = Inr s \<Longrightarrow> get_method Cls ''from_seq'' = Inr (PlainMethod g) \<Longrightarrow>
   seq_constructor Cls ldr nd = call_on_new Cls ''from_seq'' [VList s]"
  by (simp add: seq_constructor_def)

lemma tag_of_Celsius: "tag_of Celsius = ''!Celsius''"
  by (simp add: tag_of_def yaml_tag_mangle_def Celsius_def dict_get_def)

lemma tag_of_Kelvin: "tag_of Kelvin = ''!Kelvin''"
  by (simp add: tag_of_def yaml_tag_mangle_def Kelvin_def dict_get_def)



subsection \<open>The scalar builder\<close>

text \<open>
  Claim C2. The claim says that the decode function installed by the scalar builder
  calls the class's \<^verbatim>\<open>from_scalar\<close>, be it a classmethod or a plain method on a
  default-constructed instance. The code does so for a classmethod only: for a plain
  method it calls \<^verbatim>\<open>Cls().from_seq(scalar)\<close>. For \<^verbatim>\<open>Celsius\<close>, whose
  \<^verbatim>\<open>from_scalar\<close> is a plain method, decoding the node \<^verbatim>\<open>!Celsius 21.5\<close> fails with
  \<^verbatim>\<open>AttributeError\<close> for \<^verbatim>\<open>from_seq\<close>, where \<^verbatim>\<open>Celsius().from_scalar('21.5')\<close> is the
  instance the claim promises; for \<^verbatim>\<open>Kelvin\<close>, whose \<^verbatim>\<open>from_scalar\<close> is a
  classmethod, the same decode returns what \<^verbatim>\<open>from_scalar\<close> returns.
\<close>

theorem yaml_scalar_plain_method_calls_from_seq:
  "construct_object (yaml_scalar Celsius empty_registry) example_loader
       (ScalarNode ''!Celsius'' ''21.5'')
     = Inl (AttributeError ''from_seq'')
   \<and> call_on_new Celsius ''from_scalar'' [VStr ''21.5'']
     = Inr (VObject ''Celsius'' [(''degrees'', VStr ''21.5'')])
   \<and> construct_object (yaml_scalar Kelvin empty_registry) example_loader
       (ScalarNode ''!Kelvin'' ''294.6'')
     = Inr (VObject ''Kelvin'' [(''degrees'', VStr ''294.6'')])"
proof -
  have c: "construct_scalar example_loader (ScalarNode ''!Celsius'' ''21.5'') = Inr ''21.5''"
    and k: "construct_scalar example_loader (ScalarNode ''!Kelvin'' ''294.6'') = Inr ''294.6''"
    by (simp_all add: example_loader_def)
  have 1: "scalar_constructor Celsius example_loader (ScalarNode ''!Celsius'' ''21.5'')
             = Inl (AttributeError ''from_seq'')"
    by (simp add: scalar_constructor_def c get_method_def call_on_new_def Celsius_def
          dict_get_def)
  have 2: "call_on_new Celsius ''from_scalar'' [VStr ''21.5'']
             = Inr (VObject ''Celsius'' [(''degrees'', VStr ''21.5'')])"
    by (simp add: call_on_new_def get_method_def Celsius_def dict_get_def)
  have 3: "scalar_constructor Kelvin example_loader (ScalarNode ''!Kelvin'' ''294.6'')
             = Inr (VObject ''Kelvin'' [(''degrees'', VStr ''294.6'')])"
    by (simp add: scalar_constructor_def k get_method_def Kelvin_def dict_get_def)
  show ?thesis
    by (simp add: yaml_scalar_def construct_object_added tag_of_Celsius tag_of_Kelvin 1 2 3)
qed

subsection \<open>Registering a tag twice\<close>




subsection \<open>Tags that are not available\<close>

text \<open>
  Claim C9. After \<^verbatim>\<open>yaml_not_available_tag(tag, reason)\<close>, decoding any node that
  carries the tag, with any loader, fails with \<^verbatim>\<open>NotAvailableTagError\<close> holding that
  tag and that reason, also when a class with another tag is registered later; so after \<^verbatim>\<open>yaml_not_available_tag("Legacy", "removed in v3")\<close>
  a \<^verbatim>\<open>!Legacy\<close> node fails with the reason \<^verbatim>\<open>"removed in v3"\<close>.
\<close>

theorem not_available_tag_decode_fails:
  assumes "node_tag nd = ''!'' @ tag"
  shows "construct_object (yaml_not_available_tag tag reason reg) ldr nd
           = Inl (NotAvailableTagError tag reason)
       \<and> (tag_of Cls \<noteq> ''!'' @ tag \<longrightarrow>
            construct_object (yaml_scalar Cls (yaml_not_available_tag tag reason reg)) ldr nd
              = Inl (NotAvailableTagError tag reason))"
  using assms
  by (simp add: yaml_not_available_tag_def yaml_scalar_def construct_object_def dict_get_set
        not_available_constructor_def)

theorem not_available_tag_decode_fails_witness:
  "node_tag (ScalarNode ''!Legacy'' ''42'') = ''!'' @ ''Legacy''
   \<and> construct_object (yaml_not_available_tag ''Legacy'' ''removed in v3'' empty_registry)
       example_loader (ScalarNode ''!Legacy'' ''42'')
     = Inl (NotAvailableTagError ''Legacy'' ''removed in v3'')"
proof -
  have n: "node_tag (ScalarNode ''!Legacy'' ''42'') = ''!'' @ ''Legacy''"
    by simp
  show ?thesis
    using not_available_tag_decode_fails [OF n, of "''removed in v3''" empty_registry
        example_loader Kelvin] n
    by simp
qed

end
